theory Spec2Isabelle
  imports Complex_Main
begin

section \<open>Floating-point numbers\<close>

text \<open>
  The source computes with the C++ types \<^verbatim>\<open>float\<close> and \<^verbatim>\<open>double\<close>. A value of
  either type is modelled by the real number it denotes, and every operation by the exact
  real operation followed by rounding to the nearest value of the result type, ties to
  even (IEEE 754 binary32 and binary64, one rounding per operation). The result of
  rounding \<open>x\<close> to precision \<open>p\<close> is the multiple of the quantum \<open>2 ^ (e - p + 1)\<close>
  nearest to \<open>x\<close>, where \<open>e\<close> is the binary exponent of \<open>x\<close>, not below the smallest
  exponent \<open>emin\<close> of the format (gradual underflow). Infinities and NaN are not
  values of the model: it describes the runs in which every number stays finite and
  inside the range of its type.
\<close>

definition round_half_even :: "real \<Rightarrow> int" where
  "round_half_even x =
     (let n = \<lfloor>x\<rfloor>; r = x - of_int n
      in if r < 1 / 2 then n
         else if 1 / 2 < r then n + 1
         else if even n then n else n + 1)"

definition pow2 :: "int \<Rightarrow> real" where
  "pow2 e = (if 0 \<le> e then 2 ^ nat e else 1 / 2 ^ nat (- e))"

definition ilog2 :: "real \<Rightarrow> int" where
  "ilog2 x = \<lfloor>log 2 \<bar>x\<bar>\<rfloor>"

definition fl :: "nat \<Rightarrow> int \<Rightarrow> real \<Rightarrow> real" where
  "fl p emin x =
     (let e = max (ilog2 x) emin;
          q = pow2 (e - int p + 1)
      in of_int (round_half_even (x / q)) * q)"

text \<open>Conversion to \<^verbatim>\<open>float\<close> (24 significant bits) and to \<^verbatim>\<open>double\<close> (53 bits).\<close>

definition binary32 :: "real \<Rightarrow> real" where
  "binary32 = fl 24 (- 126)"

definition binary64 :: "real \<Rightarrow> real" where
  "binary64 = fl 53 (- 1022)"

text \<open>Arithmetic on two \<^verbatim>\<open>float\<close> operands, and subtraction of two \<^verbatim>\<open>double\<close>s.\<close>

definition fadd :: "real \<Rightarrow> real \<Rightarrow> real" where
  "fadd a b = binary32 (a + b)"

definition fsub :: "real \<Rightarrow> real \<Rightarrow> real" where
  "fsub a b = binary32 (a - b)"

definition fmul :: "real \<Rightarrow> real \<Rightarrow> real" where
  "fmul a b = binary32 (a * b)"

definition fdiv :: "real \<Rightarrow> real \<Rightarrow> real" where
  "fdiv a b = binary32 (a / b)"

definition dsub :: "real \<Rightarrow> real \<Rightarrow> real" where
  "dsub a b = binary64 (a - b)"

section \<open>Data\<close>

text \<open>A \<^verbatim>\<open>glm::vec3\<close> of three \<^verbatim>\<open>float\<close>s, with the operators the source applies to it.\<close>

datatype vec3 = vec3 real real real

fun vadd :: "vec3 \<Rightarrow> vec3 \<Rightarrow> vec3" where
  "vadd (vec3 a b c) (vec3 a' b' c') = vec3 (fadd a a') (fadd b b') (fadd c c')"

fun vsub :: "vec3 \<Rightarrow> vec3 \<Rightarrow> vec3" where
  "vsub (vec3 a b c) (vec3 a' b' c') = vec3 (fsub a a') (fsub b b') (fsub c c')"

text \<open>\<^verbatim>\<open>scalar * vector\<close> and \<^verbatim>\<open>vector * scalar\<close>.\<close>

fun smulv :: "real \<Rightarrow> vec3 \<Rightarrow> vec3" where
  "smulv k (vec3 a b c) = vec3 (fmul k a) (fmul k b) (fmul k c)"

fun vmuls :: "vec3 \<Rightarrow> real \<Rightarrow> vec3" where
  "vmuls (vec3 a b c) k = vec3 (fmul a k) (fmul b k) (fmul c k)"

text \<open>
  The camera object. The source reads and writes the four fields below; whatever else the
  class holds is the extension part of the record.
\<close>

record Camera =
  Position :: vec3
  Front :: vec3
  Up :: vec3
  Zoom :: real

text \<open>
  The functions of the vector library and the two methods of the camera class that the
  source calls. None of them is defined in the file under verification; the model takes
  them as parameters. The type \<open>'m\<close> is \<^verbatim>\<open>glm::mat4\<close>.
\<close>

record ('c, 'm) externals =
  glm_cross :: "vec3 \<Rightarrow> vec3 \<Rightarrow> vec3"
  glm_normalize :: "vec3 \<Rightarrow> vec3"
  glm_radians :: "real \<Rightarrow> real"
  glm_perspective :: "real \<Rightarrow> real \<Rightarrow> real \<Rightarrow> real \<Rightarrow> 'm"
  glm_ortho :: "real \<Rightarrow> real \<Rightarrow> real \<Rightarrow> real \<Rightarrow> real \<Rightarrow> real \<Rightarrow> 'm"
  Camera_GetViewMatrix :: "'c Camera_scheme \<Rightarrow> 'm"
  Camera_ProcessMouseMovement :: "real \<Rightarrow> real \<Rightarrow> 'c Camera_scheme \<Rightarrow> 'c Camera_scheme"

text \<open>The keys the source polls, and the two answers of \<^verbatim>\<open>glfwGetKey\<close>.\<close>

datatype key =
    GLFW_KEY_W | GLFW_KEY_S | GLFW_KEY_A | GLFW_KEY_D | GLFW_KEY_Q | GLFW_KEY_E
  | GLFW_KEY_ESCAPE | GLFW_KEY_O | GLFW_KEY_P

datatype key_state = GLFW_RELEASE | GLFW_PRESS

text \<open>
  A pointer is \<open>None\<close> when null and \<open>Some\<close> of an address otherwise. The calls the
  module makes into the window library, the graphics library, the camera, the shader
  manager and the standard output are recorded, in order, as values of the type below.
\<close>

type_synonym pointer = "nat option"

datatype 'm call =
    glfwCreateWindow int int string
  | glfwTerminate
  | glfwMakeContextCurrent pointer
  | glfwSetCursorPosCallback pointer
  | glfwSetScrollCallback pointer
  | glEnable_GL_BLEND
  | glBlendFunc_GL_SRC_ALPHA_GL_ONE_MINUS_SRC_ALPHA
  | glfwSetWindowShouldClose pointer bool
  | ProcessMouseMovement real real
  | setMat4Value string 'm
  | setVec3Value string vec3
  | cout_string string
  | cout_float real
  | cout_endl

text \<open>
  The state of the module: the two members of the class, the variables of the anonymous
  namespace, and the two function-local statics, both declared under the name
  \<^verbatim>\<open>gCameraSpeedMultiplier\<close>, one in each mouse callback.
\<close>

record ('c, 'm) ViewManager =
  m_pShaderManager :: pointer
  m_pWindow :: pointer
  g_pCamera :: "'c Camera_scheme"
  gLastX :: real
  gLastY :: real
  gFirstMouse :: bool
  gCameraSpeedMultiplier :: real
  gDeltaTime :: real
  gLastFrame :: real
  bOrthographicProjection :: bool
  Mouse_Position_Callback_gCameraSpeedMultiplier :: real
  Mouse_Scroll_Callback_gCameraSpeedMultiplier :: real
  calls :: "'m call list"

definition WINDOW_WIDTH :: int where
  "WINDOW_WIDTH = 1000"

definition WINDOW_HEIGHT :: int where
  "WINDOW_HEIGHT = 800"

definition g_ViewName :: string where
  "g_ViewName = ''view''"

definition g_ProjectionName :: string where
  "g_ProjectionName = ''projection''"

section \<open>Operations\<close>

text \<open>
  The initializers of the namespace variables and of the two statics, followed by the
  constructor. \<open>c\<close> is what \<^verbatim>\<open>new Camera()\<close> leaves in the rest of the camera.
\<close>

definition ViewManager_ctor :: "'c \<Rightarrow> pointer \<Rightarrow> ('c, 'm) ViewManager" where
  "ViewManager_ctor c pShaderManager =
     \<lparr> m_pShaderManager = pShaderManager,
       m_pWindow = None,
       g_pCamera = \<lparr> Position = vec3 0 5 12, Front = vec3 0 (- (1 / 2)) (- 2),
                     Up = vec3 0 1 0, Zoom = 80, \<dots> = c \<rparr>,
       gLastX = fdiv (of_int WINDOW_WIDTH) 2,
       gLastY = fdiv (of_int WINDOW_HEIGHT) 2,
       gFirstMouse = True,
       gCameraSpeedMultiplier = 1,
       gDeltaTime = 0,
       gLastFrame = 0,
       bOrthographicProjection = False,
       Mouse_Position_Callback_gCameraSpeedMultiplier = 1,
       Mouse_Scroll_Callback_gCameraSpeedMultiplier = 1,
       calls = [] \<rparr>"

text \<open>
  \<^verbatim>\<open>CreateDisplayWindow\<close>: \<open>window\<close> is the pointer that \<^verbatim>\<open>glfwCreateWindow\<close>
  returns. The result is the returned pointer and the state. (The destructor ends the life
  of the object; it is not an operation of a run.)
\<close>

definition CreateDisplayWindow ::
  "string \<Rightarrow> pointer \<Rightarrow> ('c, 'm) ViewManager \<Rightarrow> pointer \<times> ('c, 'm) ViewManager" where
  "CreateDisplayWindow windowTitle window s =
     (let s1 = s\<lparr>calls := calls s @ [glfwCreateWindow WINDOW_WIDTH WINDOW_HEIGHT windowTitle]\<rparr>
      in if window = None
         then (None,
               s1\<lparr>calls := calls s1 @
                  [cout_string ''Failed to create GLFW window'', cout_endl, glfwTerminate]\<rparr>)
         else (window,
               s1\<lparr>calls := calls s1 @
                  [glfwMakeContextCurrent window,
                   glfwSetCursorPosCallback window,
                   glfwSetScrollCallback window,
                   glEnable_GL_BLEND,
                   glBlendFunc_GL_SRC_ALPHA_GL_ONE_MINUS_SRC_ALPHA],
                  m_pWindow := window\<rparr>))"

text \<open>
  \<^verbatim>\<open>Mouse_Position_Callback\<close>. The cursor position arrives as two \<^verbatim>\<open>double\<close>s and is
  stored in \<^verbatim>\<open>float\<close> variables; the differences are taken in \<^verbatim>\<open>double\<close> and stored
  in \<^verbatim>\<open>float\<close> variables.
\<close>

definition Mouse_Position_Callback ::
  "('c, 'm) externals \<Rightarrow> pointer \<Rightarrow> real \<Rightarrow> real \<Rightarrow> ('c, 'm) ViewManager \<Rightarrow> ('c, 'm) ViewManager" where
  "Mouse_Position_Callback E window xMousePos yMousePos s =
     (let s1 = (if gFirstMouse s
                then s\<lparr>gLastX := binary32 xMousePos, gLastY := binary32 yMousePos,
                       gFirstMouse := False\<rparr>
                else s);
          xOffset = binary32 (dsub xMousePos (gLastX s1));
          yOffset = binary32 (dsub (gLastY s1) yMousePos);
          s2 = s1\<lparr>gLastX := binary32 xMousePos, gLastY := binary32 yMousePos\<rparr>;
          sensitivity = 5 / 2;
          xOffset = fmul xOffset sensitivity;
          yOffset = fmul yOffset sensitivity;
          s3 = s2\<lparr>g_pCamera := Camera_ProcessMouseMovement E xOffset yOffset (g_pCamera s2),
                  calls := calls s2 @ [ProcessMouseMovement xOffset yOffset]\<rparr>;
          m = fadd (Mouse_Position_Callback_gCameraSpeedMultiplier s3)
                (fmul yOffset (binary32 (1 / 10)));
          m = (if m < binary32 (1 / 10) then binary32 (1 / 10) else m);
          m = (if 10 < m then 10 else m)
      in s3\<lparr>Mouse_Position_Callback_gCameraSpeedMultiplier := m,
            calls := calls s3 @
              [cout_string ''Camera Speed Multiplier: '', cout_float m, cout_endl]\<rparr>)"

text \<open>\<^verbatim>\<open>Mouse_Scroll_Callback\<close>.\<close>

definition Mouse_Scroll_Callback ::
  "pointer \<Rightarrow> real \<Rightarrow> real \<Rightarrow> ('c, 'm) ViewManager \<Rightarrow> ('c, 'm) ViewManager" where
  "Mouse_Scroll_Callback window xOffset yOffset s =
     (let m = fadd (Mouse_Scroll_Callback_gCameraSpeedMultiplier s)
                (fmul (binary32 yOffset) (binary32 (1 / 10)));
          m = (if m < binary32 (1 / 10) then binary32 (1 / 10) else m);
          m = (if 10 < m then 10 else m)
      in s\<lparr>Mouse_Scroll_Callback_gCameraSpeedMultiplier := m,
           calls := calls s @
             [cout_string ''Camera Speed Multiplier: '', cout_float m, cout_endl]\<rparr>)"

text \<open>
  \<^verbatim>\<open>ProcessKeyboardEvents\<close>. \<open>glfwGetKey\<close> is the answer of the window library for a
  window and a key during this frame. \<open>Position_add\<close> and \<open>Position_sub\<close> are the
  statements \<^verbatim>\<open>g_pCamera->Position += v\<close> and \<^verbatim>\<open>g_pCamera->Position -= v\<close>.
\<close>

definition Position_add :: "vec3 \<Rightarrow> ('c, 'm) ViewManager \<Rightarrow> ('c, 'm) ViewManager" where
  "Position_add v s = s\<lparr>g_pCamera := (g_pCamera s)\<lparr>Position := vadd (Position (g_pCamera s)) v\<rparr>\<rparr>"

definition Position_sub :: "vec3 \<Rightarrow> ('c, 'm) ViewManager \<Rightarrow> ('c, 'm) ViewManager" where
  "Position_sub v s = s\<lparr>g_pCamera := (g_pCamera s)\<lparr>Position := vsub (Position (g_pCamera s)) v\<rparr>\<rparr>"

definition ProcessKeyboardEvents ::
  "('c, 'm) externals \<Rightarrow> (pointer \<Rightarrow> key \<Rightarrow> key_state) \<Rightarrow> ('c, 'm) ViewManager \<Rightarrow> ('c, 'm) ViewManager" where
  "ProcessKeyboardEvents E glfwGetKey s =
     (let cameraSpeed = fmul (fmul (gDeltaTime s) 5) (gCameraSpeedMultiplier s);
          s = (if glfwGetKey (m_pWindow s) GLFW_KEY_W = GLFW_PRESS
               then Position_add (smulv cameraSpeed (Front (g_pCamera s))) s else s);
          s = (if glfwGetKey (m_pWindow s) GLFW_KEY_S = GLFW_PRESS
               then Position_sub (smulv cameraSpeed (Front (g_pCamera s))) s else s);
          s = (if glfwGetKey (m_pWindow s) GLFW_KEY_A = GLFW_PRESS
               then Position_sub
                      (vmuls (glm_normalize E (glm_cross E (Front (g_pCamera s)) (Up (g_pCamera s))))
                         cameraSpeed) s
               else s);
          s = (if glfwGetKey (m_pWindow s) GLFW_KEY_D = GLFW_PRESS
               then Position_add
                      (vmuls (glm_normalize E (glm_cross E (Front (g_pCamera s)) (Up (g_pCamera s))))
                         cameraSpeed) s
               else s);
          s = (if glfwGetKey (m_pWindow s) GLFW_KEY_Q = GLFW_PRESS
               then Position_add (smulv cameraSpeed (Up (g_pCamera s))) s else s);
          s = (if glfwGetKey (m_pWindow s) GLFW_KEY_E = GLFW_PRESS
               then Position_sub (smulv cameraSpeed (Up (g_pCamera s))) s else s)
      in if glfwGetKey (m_pWindow s) GLFW_KEY_ESCAPE = GLFW_PRESS
         then s\<lparr>calls := calls s @ [glfwSetWindowShouldClose (m_pWindow s) True]\<rparr>
         else s)"

text \<open>
  \<^verbatim>\<open>PrepareSceneView\<close>. \<open>glfwGetTime\<close> is the \<^verbatim>\<open>double\<close> the clock of the window library
  returns in this frame.
\<close>

definition PrepareSceneView ::
  "('c, 'm) externals \<Rightarrow> (pointer \<Rightarrow> key \<Rightarrow> key_state) \<Rightarrow> real \<Rightarrow> ('c, 'm) ViewManager \<Rightarrow> ('c, 'm) ViewManager" where
  "PrepareSceneView E glfwGetKey glfwGetTime s =
     (let currentFrame = binary32 glfwGetTime;
          s = s\<lparr>gDeltaTime := fsub currentFrame (gLastFrame s)\<rparr>;
          s = s\<lparr>gLastFrame := currentFrame\<rparr>;
          s = ProcessKeyboardEvents E glfwGetKey s;
          view = Camera_GetViewMatrix E (g_pCamera s);
          projection = glm_perspective E (glm_radians E (Zoom (g_pCamera s)))
                         (fdiv (of_int WINDOW_WIDTH) (of_int WINDOW_HEIGHT))
                         (binary32 (1 / 10)) 100;
          s = (if glfwGetKey (m_pWindow s) GLFW_KEY_O = GLFW_PRESS
               then s\<lparr>bOrthographicProjection := True\<rparr> else s);
          s = (if glfwGetKey (m_pWindow s) GLFW_KEY_P = GLFW_PRESS
               then s\<lparr>bOrthographicProjection := False\<rparr> else s);
          projection =
            (if bOrthographicProjection s
             then glm_ortho E (- 10) 10 (- 10) 10 (binary32 (1 / 10)) 100
             else glm_perspective E (glm_radians E (Zoom (g_pCamera s)))
                    (fdiv (of_int WINDOW_WIDTH) (of_int WINDOW_HEIGHT))
                    (binary32 (1 / 10)) 100)
      in if m_pShaderManager s \<noteq> None
         then s\<lparr>calls := calls s @
                 [setMat4Value g_ViewName view,
                  setMat4Value g_ProjectionName projection,
                  setVec3Value ''viewPosition'' (Position (g_pCamera s))]\<rparr>
         else s)"

section \<open>Runs\<close>

text \<open>
  What the host and the window library do with the module after construction: create
  the window, deliver a cursor position or a scroll offset, or render a frame.
\<close>

datatype event =
    CreateWindow string pointer
  | CursorPos pointer real real
  | Scroll pointer real real
  | Frame "pointer \<Rightarrow> key \<Rightarrow> key_state" real

fun step :: "('c, 'm) externals \<Rightarrow> ('c, 'm) ViewManager \<Rightarrow> event \<Rightarrow> ('c, 'm) ViewManager" where
  "step E s (CreateWindow windowTitle window) = snd (CreateDisplayWindow windowTitle window s)"
| "step E s (CursorPos window x y) = Mouse_Position_Callback E window x y s"
| "step E s (Scroll window x y) = Mouse_Scroll_Callback window x y s"
| "step E s (Frame glfwGetKey glfwGetTime) = PrepareSceneView E glfwGetKey glfwGetTime s"

definition run :: "('c, 'm) externals \<Rightarrow> ('c, 'm) ViewManager \<Rightarrow> event list \<Rightarrow> ('c, 'm) ViewManager" where
  "run E s evs = foldl (step E) s evs"

text \<open>The clock readings of the frames of a run, in order.\<close>

fun frame_times :: "event list \<Rightarrow> real list" where
  "frame_times [] = []"
| "frame_times (Frame glfwGetKey glfwGetTime # evs) = glfwGetTime # frame_times evs"
| "frame_times (ev # evs) = frame_times evs"

section \<open>Observations\<close>

text \<open>The offsets handed to the camera, in order, among recorded calls.\<close>

fun mouse_movement_of :: "'m call \<Rightarrow> (real \<times> real) list" where
  "mouse_movement_of (ProcessMouseMovement xoffset yoffset) = [(xoffset, yoffset)]"
| "mouse_movement_of _ = []"

definition forwarded :: "'m call list \<Rightarrow> (real \<times> real) list" where
  "forwarded cs = concat (map mouse_movement_of cs)"

text \<open>The names under which shader parameters are set, in order, among recorded calls.\<close>

fun shader_key_of :: "'m call \<Rightarrow> string list" where
  "shader_key_of (setMat4Value name m) = [name]"
| "shader_key_of (setVec3Value name v) = [name]"
| "shader_key_of _ = []"

definition shader_keys :: "'m call list \<Rightarrow> string list" where
  "shader_keys cs = concat (map shader_key_of cs)"

text \<open>The matrices set under one name, in order, among recorded calls.\<close>

fun mat4_of :: "string \<Rightarrow> 'm call \<Rightarrow> 'm list" where
  "mat4_of name (setMat4Value name' m) = (if name' = name then [m] else [])"
| "mat4_of name _ = []"

definition mat4_sent :: "string \<Rightarrow> 'm call list \<Rightarrow> 'm list" where
  "mat4_sent name cs = concat (map (mat4_of name) cs)"

text \<open>The writes of the close flag of a window, in order, among recorded calls.\<close>

fun should_close_of :: "'m call \<Rightarrow> (pointer \<times> bool) list" where
  "should_close_of (glfwSetWindowShouldClose window v) = [(window, v)]"
| "should_close_of _ = []"

definition should_close_writes :: "'m call list \<Rightarrow> (pointer \<times> bool) list" where
  "should_close_writes cs = concat (map should_close_of cs)"

text \<open>What one event of a run adds to the writes of the close flag.\<close>

fun close_request :: "pointer \<Rightarrow> event \<Rightarrow> (pointer \<times> bool) list" where
  "close_request w (Frame glfwGetKey glfwGetTime) =
     (if glfwGetKey w GLFW_KEY_ESCAPE = GLFW_PRESS then [(w, True)] else [])"
| "close_request w _ = []"

section \<open>The movement of the camera as the specification words it\<close>

text \<open>
  The specification gives one displacement for each movement key: the camera speed along
  +Front for W, -Front for S, -normalize(cross(Front, Up)) for A, the same with + for D,
  +Up for Q and -Up for E. \<open>spec_move\<close> applies the displacement of one key to a
  position, and \<open>spec_position\<close> those of all the pressed movement keys.
\<close>

definition movement_keys :: "key list" where
  "movement_keys = [GLFW_KEY_W, GLFW_KEY_S, GLFW_KEY_A, GLFW_KEY_D, GLFW_KEY_Q, GLFW_KEY_E]"

fun spec_move :: "('c, 'm) externals \<Rightarrow> 'c Camera_scheme \<Rightarrow> real \<Rightarrow> vec3 \<Rightarrow> key \<Rightarrow> vec3" where
  "spec_move E cam speed pos GLFW_KEY_W = vadd pos (smulv speed (Front cam))"
| "spec_move E cam speed pos GLFW_KEY_S = vsub pos (smulv speed (Front cam))"
| "spec_move E cam speed pos GLFW_KEY_A =
     vsub pos (vmuls (glm_normalize E (glm_cross E (Front cam) (Up cam))) speed)"
| "spec_move E cam speed pos GLFW_KEY_D =
     vadd pos (vmuls (glm_normalize E (glm_cross E (Front cam) (Up cam))) speed)"
| "spec_move E cam speed pos GLFW_KEY_Q = vadd pos (smulv speed (Up cam))"
| "spec_move E cam speed pos GLFW_KEY_E = vsub pos (smulv speed (Up cam))"
| "spec_move E cam speed pos _ = pos"

definition spec_speed :: "('c, 'm) ViewManager \<Rightarrow> real" where
  "spec_speed s = fmul (fmul (gDeltaTime s) 5) (gCameraSpeedMultiplier s)"

definition spec_position ::
  "('c, 'm) externals \<Rightarrow> (key \<Rightarrow> bool) \<Rightarrow> ('c, 'm) ViewManager \<Rightarrow> vec3" where
  "spec_position E pressed s =
     foldl (spec_move E (g_pCamera s) (spec_speed s)) (Position (g_pCamera s))
       (filter pressed movement_keys)"

section \<open>An instance of the external functions\<close>

text \<open>
  To evaluate the operations on concrete inputs, the external functions are instantiated.
  A matrix is the term that builds it. The cross product is computed in \<^verbatim>\<open>float\<close>
  arithmetic, the conversion to radians multiplies by the \<^verbatim>\<open>float\<close> nearest to pi / 180,
  and the normalization is the exact one on the vectors along a coordinate axis and leaves
  every other vector as it is. The camera keeps its orientation when the mouse moves, and
  its view matrix looks from its position along its front vector.
\<close>

datatype mat4_term =
    Perspective real real real real
  | Ortho real real real real real real
  | LookAt vec3 vec3 vec3

fun cross_instance :: "vec3 \<Rightarrow> vec3 \<Rightarrow> vec3" where
  "cross_instance (vec3 a b c) (vec3 a' b' c') =
     vec3 (fsub (fmul b c') (fmul b' c)) (fsub (fmul c a') (fmul c' a))
       (fsub (fmul a b') (fmul a' b))"

fun normalize_instance :: "vec3 \<Rightarrow> vec3" where
  "normalize_instance (vec3 a b c) =
     (if b = 0 \<and> c = 0 then vec3 (sgn a) 0 0
      else if a = 0 \<and> c = 0 then vec3 0 (sgn b) 0
      else if a = 0 \<and> b = 0 then vec3 0 0 (sgn c)
      else vec3 a b c)"

definition radians_instance :: "real \<Rightarrow> real" where
  "radians_instance degrees = fmul degrees (binary32 (17453292519943295 / 1000000000000000000))"

definition externals_instance :: "(unit, mat4_term) externals" where
  "externals_instance =
     \<lparr> glm_cross = cross_instance,
       glm_normalize = normalize_instance,
       glm_radians = radians_instance,
       glm_perspective = Perspective,
       glm_ortho = Ortho,
       Camera_GetViewMatrix = (\<lambda>cam. LookAt (Position cam) (vadd (Position cam) (Front cam)) (Up cam)),
       Camera_ProcessMouseMovement = (\<lambda>xoffset yoffset cam. cam) \<rparr>"

text \<open>A window library that reports the keys of a list as pressed, for every window.\<close>

definition keys_down :: "key list \<Rightarrow> pointer \<Rightarrow> key \<Rightarrow> key_state" where
  "keys_down ks window k = (if k \<in> set ks then GLFW_PRESS else GLFW_RELEASE)"

section \<open>Properties of rounding\<close>

text \<open>
  Rounding maps zero to zero, commutes with negation and is monotone. Monotonicity is
  what carries an order between two clock readings over to their \<^verbatim>\<open>float\<close> copies.
\<close>

lemma pow2_powr: "pow2 e = 2 powr real_of_int e"
  by (simp add: pow2_def powr_int)

lemma pow2_pos: "0 < pow2 e"
  by (simp add: pow2_powr)

lemma pow2_add: "pow2 (a + b) = pow2 a * pow2 b"
  by (simp add: pow2_powr powr_add)

lemma pow2_mono: "a \<le> b \<Longrightarrow> pow2 a \<le> pow2 b"
  by (simp add: pow2_powr)

lemma pow2_nat: "pow2 (int n) = 2 ^ n"
  by (simp add: pow2_def)

lemma rhe_of_int: "round_half_even (of_int n) = n"
  by (simp add: round_half_even_def)

lemma rhe_mono:
  assumes "x \<le> y"
  shows "round_half_even x \<le> round_half_even y"
proof (cases "\<lfloor>x\<rfloor> = \<lfloor>y\<rfloor>")
  case True
  with assms show ?thesis
    unfolding round_half_even_def Let_def by (auto; linarith)
next
  case False
  with assms have lt: "\<lfloor>x\<rfloor> + 1 \<le> \<lfloor>y\<rfloor>"
    using floor_mono [of x y] by linarith
  have "round_half_even x \<le> \<lfloor>x\<rfloor> + 1"
    unfolding round_half_even_def Let_def by auto
  moreover have "\<lfloor>y\<rfloor> \<le> round_half_even y"
    unfolding round_half_even_def Let_def by auto
  ultimately show ?thesis using lt by linarith
qed

lemma rhe_neg: "round_half_even (- x) = - round_half_even x"
proof (cases "x \<in> \<int>")
  case True
  then obtain n where "x = of_int n" by (auto elim: Ints_cases)
  then show ?thesis
    using rhe_of_int [of n] rhe_of_int [of "- n"] by simp
next
  case False
  then have "x \<noteq> of_int \<lfloor>x\<rfloor>"
    by (metis Ints_of_int)
  then have "\<lceil>x\<rceil> = \<lfloor>x\<rfloor> + 1"
    by (simp add: ceiling_altdef)
  then have fl: "\<lfloor>- x\<rfloor> = - \<lfloor>x\<rfloor> - 1"
    by (simp add: ceiling_def)
  show ?thesis
    unfolding round_half_even_def Let_def fl
    by (auto; linarith?)
qed

lemma ilog2_eqI: "pow2 k \<le> \<bar>x\<bar> \<Longrightarrow> \<bar>x\<bar> < pow2 (k + 1) \<Longrightarrow> ilog2 x = k"
proof -
  assume a: "pow2 k \<le> \<bar>x\<bar>" and b: "\<bar>x\<bar> < pow2 (k + 1)"
  from a have "0 < \<bar>x\<bar>" using pow2_pos [of k] by linarith
  then show ?thesis
    unfolding ilog2_def using a b
    by (simp only: floor_log_eq_powr_iff pow2_powr)
qed

lemma ilog2_bounds:
  assumes "x \<noteq> 0"
  shows "pow2 (ilog2 x) \<le> \<bar>x\<bar>" and "\<bar>x\<bar> < pow2 (ilog2 x + 1)"
proof -
  from assms have pos: "0 < \<bar>x\<bar>" by simp
  have "\<lfloor>log 2 \<bar>x\<bar>\<rfloor> = ilog2 x" by (simp add: ilog2_def)
  then have "2 powr real_of_int (ilog2 x) \<le> \<bar>x\<bar> \<and> \<bar>x\<bar> < 2 powr real_of_int (ilog2 x + 1)"
    using floor_log_eq_powr_iff [OF pos, of 2 "ilog2 x"] by simp
  then show "pow2 (ilog2 x) \<le> \<bar>x\<bar>" and "\<bar>x\<bar> < pow2 (ilog2 x + 1)"
    by (simp_all only: pow2_powr)
qed

lemma ilog2_neg: "ilog2 (- x) = ilog2 x"
  by (simp add: ilog2_def)

lemma ilog2_mono:
  assumes "0 < x" "x \<le> y"
  shows "ilog2 x \<le> ilog2 y"
  unfolding ilog2_def using assms by (intro floor_mono) simp

lemma fl_zero: "fl p emin 0 = 0"
  by (simp add: fl_def rhe_of_int [of 0, simplified])

lemma fl_neg: "fl p emin (- x) = - fl p emin x"
  by (simp add: fl_def ilog2_neg rhe_neg Let_def)

lemma fl_nonneg:
  assumes "0 \<le> x"
  shows "0 \<le> fl p emin x"
proof -
  define q where "q = pow2 (max (ilog2 x) emin - int p + 1)"
  have q: "0 < q" by (simp add: q_def pow2_pos)
  with assms have "0 \<le> x / q" by simp
  then have "round_half_even 0 \<le> round_half_even (x / q)" by (rule rhe_mono)
  then have "0 \<le> round_half_even (x / q)" using rhe_of_int [of 0] by simp
  with q show ?thesis by (simp add: fl_def Let_def q_def)
qed

lemma fl_nonpos: "x \<le> 0 \<Longrightarrow> fl p emin x \<le> 0"
  using fl_nonneg [of "- x" p emin] by (simp add: fl_neg)

lemma fl_upper:
  assumes "0 < x"
  shows "fl p emin x \<le> pow2 (max (ilog2 x) emin + 1)"
proof -
  define e where "e = max (ilog2 x) emin"
  define q where "q = pow2 (e - int p + 1)"
  have q: "0 < q" by (simp add: q_def pow2_pos)
  have "x < pow2 (ilog2 x + 1)" using ilog2_bounds(2) [of x] assms by simp
  also have "\<dots> \<le> pow2 (e + 1)" by (rule pow2_mono) (simp add: e_def)
  also have "pow2 (e + 1) = pow2 (int p) * q"
    unfolding q_def pow2_add [symmetric] by simp
  finally have "x / q \<le> of_int (2 ^ p)"
    using q by (simp add: pow2_nat pos_divide_le_eq)
  then have "round_half_even (x / q) \<le> round_half_even (of_int (2 ^ p))" by (rule rhe_mono)
  then have "round_half_even (x / q) \<le> 2 ^ p" by (simp only: rhe_of_int)
  then have "real_of_int (round_half_even (x / q)) \<le> 2 ^ p"
    by (metis of_int_le_iff of_int_numeral of_int_power)
  then have "of_int (round_half_even (x / q)) * q \<le> 2 ^ p * q"
    using q by simp
  also have "2 ^ p * q = pow2 (e + 1)"
    unfolding q_def pow2_nat [symmetric] pow2_add [symmetric] by simp
  finally show ?thesis by (simp add: fl_def Let_def e_def q_def)
qed

lemma fl_lower:
  assumes "0 < x" "emin \<le> ilog2 x" "0 < p"
  shows "pow2 (ilog2 x) \<le> fl p emin x"
proof -
  define e where "e = ilog2 x"
  define q where "q = pow2 (e - int p + 1)"
  have q: "0 < q" by (simp add: q_def pow2_pos)
  have emax: "max (ilog2 x) emin = e" using assms by (simp add: e_def)
  have eq: "pow2 e = pow2 (int (p - 1)) * q"
    unfolding q_def pow2_add [symmetric] using assms by (simp add: of_nat_diff)
  have "pow2 e \<le> x" using ilog2_bounds(1) [of x] assms by (simp add: e_def)
  then have "of_int (2 ^ (p - 1)) \<le> x / q"
    using q by (simp add: eq pow2_nat pos_le_divide_eq)
  then have "round_half_even (of_int (2 ^ (p - 1))) \<le> round_half_even (x / q)" by (rule rhe_mono)
  then have "2 ^ (p - 1) \<le> round_half_even (x / q)" by (simp only: rhe_of_int)
  then have "2 ^ (p - 1) \<le> real_of_int (round_half_even (x / q))"
    by (metis of_int_le_iff of_int_numeral of_int_power)
  then have "pow2 (int (p - 1)) * q \<le> of_int (round_half_even (x / q)) * q"
    using q by (simp add: pow2_nat)
  then have "pow2 e \<le> of_int (round_half_even (x / q)) * q"
    by (simp only: eq)
  then show ?thesis
    by (simp add: fl_def Let_def emax q_def) (simp add: e_def)
qed

lemma fl_mono_pos:
  assumes "0 < x" "x \<le> y" "0 < p"
  shows "fl p emin x \<le> fl p emin y"
proof -
  define ex where "ex = max (ilog2 x) emin"
  define ey where "ey = max (ilog2 y) emin"
  have le: "ex \<le> ey" using ilog2_mono [OF assms(1,2)] by (simp add: ex_def ey_def)
  show ?thesis
  proof (cases "ex = ey")
    case True
    define q where "q = pow2 (ex - int p + 1)"
    have q: "0 < q" by (simp add: q_def pow2_pos)
    have "x / q \<le> y / q" using assms q by (simp add: divide_right_mono)
    then have "round_half_even (x / q) \<le> round_half_even (y / q)" by (rule rhe_mono)
    then have "of_int (round_half_even (x / q)) * q \<le> of_int (round_half_even (y / q)) * q"
      using q by simp
    then show ?thesis
      using True by (simp add: fl_def Let_def q_def ex_def ey_def)
  next
    case False
    with le have lt: "ex + 1 \<le> ey" by simp
    then have ey: "ey = ilog2 y" "emin \<le> ilog2 y"
      by (simp_all add: ex_def ey_def max_def split: if_splits)
    have ypos: "0 < y" using assms by simp
    have "fl p emin x \<le> pow2 (ex + 1)"
      using fl_upper [OF assms(1)] by (simp add: ex_def)
    also have "\<dots> \<le> pow2 ey" using lt by (rule pow2_mono)
    also have "\<dots> \<le> fl p emin y"
      using fl_lower [OF ypos ey(2) assms(3)] by (simp add: ey(1))
    finally show ?thesis .
  qed
qed

lemma fl_mono:
  assumes "x \<le> y" "0 < p"
  shows "fl p emin x \<le> fl p emin y"
proof -
  consider "0 < x" | "x \<le> 0" "0 \<le> y" | "y < 0" by linarith
  then show ?thesis
  proof cases
    case 1
    then show ?thesis using assms by (simp add: fl_mono_pos)
  next
    case 2
    then show ?thesis
      using fl_nonpos [of x p emin] fl_nonneg [of y p emin] by linarith
  next
    case 3
    then have "fl p emin (- y) \<le> fl p emin (- x)"
      using assms by (intro fl_mono_pos) simp_all
    then show ?thesis by (simp add: fl_neg)
  qed
qed

lemma binary32_zero: "binary32 0 = 0"
  by (simp add: binary32_def fl_zero)

lemma binary64_zero: "binary64 0 = 0"
  by (simp add: binary64_def fl_zero)

lemma binary32_mono: "x \<le> y \<Longrightarrow> binary32 x \<le> binary32 y"
  by (simp add: binary32_def fl_mono)

lemma binary32_nonneg: "0 \<le> x \<Longrightarrow> 0 \<le> binary32 x"
  by (simp add: binary32_def fl_nonneg)

text \<open>
  Rules that compute the binary exponent of a numeral, so that the simplifier evaluates
  a rounding on concrete numbers; for instance the \<^verbatim>\<open>float\<close> literal \<^verbatim>\<open>0.1f\<close> is
  \<open>13421773 / 2 ^ 27\<close>, slightly above one tenth.
\<close>

lemma ilog2_zero: "ilog2 0 = 0"
  by (simp add: ilog2_def log_def)

lemma ilog2_unit: "1 \<le> \<bar>x\<bar> \<Longrightarrow> \<bar>x\<bar> < 2 \<Longrightarrow> ilog2 x = 0"
  by (intro ilog2_eqI) (simp_all add: pow2_def)

lemma ilog2_halve: "2 \<le> \<bar>x\<bar> \<Longrightarrow> ilog2 x = ilog2 (x / 2) + 1"
proof -
  assume "2 \<le> \<bar>x\<bar>"
  then have "x \<noteq> 0" by auto
  then have "log 2 \<bar>x / 2\<bar> = log 2 \<bar>x\<bar> - 1"
    by (simp add: log_divide)
  then show ?thesis by (simp add: ilog2_def)
qed

lemma ilog2_double: "x \<noteq> 0 \<Longrightarrow> \<bar>x\<bar> < 1 \<Longrightarrow> ilog2 x = ilog2 (x * 2) - 1"
proof -
  assume "x \<noteq> 0"
  then have "log 2 \<bar>x * 2\<bar> = log 2 \<bar>x\<bar> + 1"
    by (simp add: log_mult abs_mult)
  then show ?thesis by (simp add: ilog2_def del: abs_mult)
qed

lemma ilog2_code [code]:
  "ilog2 x = (if x = 0 then 0
              else if 2 \<le> \<bar>x\<bar> then ilog2 (x / 2) + 1
              else if \<bar>x\<bar> < 1 then ilog2 (x * 2) - 1
              else 0)"
proof -
  have "1 \<le> \<bar>x\<bar> \<and> \<bar>x\<bar> < 2" if "\<not> 2 \<le> \<bar>x\<bar>" "\<not> \<bar>x\<bar> < 1"
    using that by simp
  then show ?thesis
    using ilog2_zero ilog2_unit [of x] ilog2_halve [of x] ilog2_double [of x] by auto
qed

lemmas float_eval =
  binary32_def binary64_def fadd_def fsub_def fmul_def fdiv_def dsub_def
  fl_def ilog2_zero ilog2_unit ilog2_halve ilog2_double pow2_def round_half_even_def Let_def

lemma binary32_tenth: "binary32 (1 / 10) = 13421773 / 134217728"
  by (simp add: float_eval)

section \<open>The recorded calls and the runs\<close>

lemma forwarded_append: "forwarded (cs @ cs') = forwarded cs @ forwarded cs'"
  by (simp add: forwarded_def)

lemma shader_keys_append: "shader_keys (cs @ cs') = shader_keys cs @ shader_keys cs'"
  by (simp add: shader_keys_def)

lemma mat4_sent_append: "mat4_sent name (cs @ cs') = mat4_sent name cs @ mat4_sent name cs'"
  by (simp add: mat4_sent_def)

lemma should_close_writes_append:
  "should_close_writes (cs @ cs') = should_close_writes cs @ should_close_writes cs'"
  by (simp add: should_close_writes_def)

lemma run_append: "run E s (evs @ evs') = run E (run E s evs) evs'"
  by (simp add: run_def)

lemma run_snoc: "run E s (evs @ [ev]) = step E (run E s evs) ev"
  by (simp add: run_def)

lemma frame_times_append: "frame_times (evs @ evs') = frame_times evs @ frame_times evs'"
  by (induction evs rule: frame_times.induct) simp_all

lemma keys_down_simps:
  "(keys_down ks w k = GLFW_PRESS) = (k \<in> set ks)"
  by (simp add: keys_down_def)

section \<open>The keyboard poller and the frame preparer in closed form\<close>

text \<open>
  \<^verbatim>\<open>ProcessKeyboardEvents\<close> changes the position of the camera and may record one call;
  \<^verbatim>\<open>PrepareSceneView\<close> also changes the timing variables and the projection flag and may
  record three more calls. Each is equal to one update of its argument.
\<close>

lemma foldl_filter_Cons:
  "foldl f p (filter P (k # ks)) = foldl f (if P k then f p k else p) (filter P ks)"
  by simp

lemma Position_add_eq:
  "s' = s\<lparr>g_pCamera := (g_pCamera s)\<lparr>Position := p\<rparr>\<rparr> \<Longrightarrow>
   (if c then Position_add v s' else s') =
     s\<lparr>g_pCamera := (g_pCamera s)\<lparr>Position := (if c then vadd p v else p)\<rparr>\<rparr>"
  by (simp add: Position_add_def)

lemma Position_sub_eq:
  "s' = s\<lparr>g_pCamera := (g_pCamera s)\<lparr>Position := p\<rparr>\<rparr> \<Longrightarrow>
   (if c then Position_sub v s' else s') =
     s\<lparr>g_pCamera := (g_pCamera s)\<lparr>Position := (if c then vsub p v else p)\<rparr>\<rparr>"
  by (simp add: Position_sub_def)

lemma ProcessKeyboardEvents_eq:
  "ProcessKeyboardEvents E glfwGetKey s =
     s\<lparr>g_pCamera := (g_pCamera s)\<lparr>Position :=
            spec_position E (\<lambda>k. glfwGetKey (m_pWindow s) k = GLFW_PRESS) s\<rparr>,
       calls := calls s @
         (if glfwGetKey (m_pWindow s) GLFW_KEY_ESCAPE = GLFW_PRESS
          then [glfwSetWindowShouldClose (m_pWindow s) True] else [])\<rparr>"
proof -
  define P where "P k \<longleftrightarrow> glfwGetKey (m_pWindow s) k = GLFW_PRESS" for k
  define cs where "cs = fmul (fmul (gDeltaTime s) 5) (gCameraSpeedMultiplier s)"
  define cam where "cam = g_pCamera s"
  define f where "f = spec_move E cam cs"
  define right where "right = glm_normalize E (glm_cross E (Front cam) (Up cam))"
  define s1 where "s1 =
    (if glfwGetKey (m_pWindow s) GLFW_KEY_W = GLFW_PRESS
     then Position_add (smulv cs (Front (g_pCamera s))) s else s)"
  define s2 where "s2 =
    (if glfwGetKey (m_pWindow s1) GLFW_KEY_S = GLFW_PRESS
     then Position_sub (smulv cs (Front (g_pCamera s1))) s1 else s1)"
  define s3 where "s3 =
    (if glfwGetKey (m_pWindow s2) GLFW_KEY_A = GLFW_PRESS
     then Position_sub
            (vmuls (glm_normalize E (glm_cross E (Front (g_pCamera s2)) (Up (g_pCamera s2)))) cs) s2
     else s2)"
  define s4 where "s4 =
    (if glfwGetKey (m_pWindow s3) GLFW_KEY_D = GLFW_PRESS
     then Position_add
            (vmuls (glm_normalize E (glm_cross E (Front (g_pCamera s3)) (Up (g_pCamera s3)))) cs) s3
     else s3)"
  define s5 where "s5 =
    (if glfwGetKey (m_pWindow s4) GLFW_KEY_Q = GLFW_PRESS
     then Position_add (smulv cs (Up (g_pCamera s4))) s4 else s4)"
  define s6 where "s6 =
    (if glfwGetKey (m_pWindow s5) GLFW_KEY_E = GLFW_PRESS
     then Position_sub (smulv cs (Up (g_pCamera s5))) s5 else s5)"
  define p0 where "p0 = Position cam"
  define p1 where "p1 = (if P GLFW_KEY_W then f p0 GLFW_KEY_W else p0)"
  define p2 where "p2 = (if P GLFW_KEY_S then f p1 GLFW_KEY_S else p1)"
  define p3 where "p3 = (if P GLFW_KEY_A then f p2 GLFW_KEY_A else p2)"
  define p4 where "p4 = (if P GLFW_KEY_D then f p3 GLFW_KEY_D else p3)"
  define p5 where "p5 = (if P GLFW_KEY_Q then f p4 GLFW_KEY_Q else p4)"
  define p6 where "p6 = (if P GLFW_KEY_E then f p5 GLFW_KEY_E else p5)"
  have unfold: "ProcessKeyboardEvents E glfwGetKey s =
      (if glfwGetKey (m_pWindow s6) GLFW_KEY_ESCAPE = GLFW_PRESS
       then s6\<lparr>calls := calls s6 @ [glfwSetWindowShouldClose (m_pWindow s6) True]\<rparr>
       else s6)"
    unfolding ProcessKeyboardEvents_def Let_def s6_def s5_def s4_def s3_def s2_def s1_def cs_def ..
  have spec: "spec_position E (\<lambda>k. glfwGetKey (m_pWindow s) k = GLFW_PRESS) s = p6"
    unfolding spec_position_def movement_keys_def spec_speed_def foldl_filter_Cons
      p6_def p5_def p4_def p3_def p2_def p1_def p0_def f_def P_def cam_def cs_def
    by simp
  have r0: "s = s\<lparr>g_pCamera := (g_pCamera s)\<lparr>Position := p0\<rparr>\<rparr>"
    by (simp add: p0_def cam_def)
  have r1: "s1 = s\<lparr>g_pCamera := (g_pCamera s)\<lparr>Position := p1\<rparr>\<rparr>"
    unfolding s1_def by (subst Position_add_eq [OF r0]) (simp add: p1_def f_def P_def cam_def)
  have r2: "s2 = s\<lparr>g_pCamera := (g_pCamera s)\<lparr>Position := p2\<rparr>\<rparr>"
    unfolding s2_def by (subst Position_sub_eq [OF r1]) (simp add: r1 p2_def f_def P_def cam_def)
  have r3: "s3 = s\<lparr>g_pCamera := (g_pCamera s)\<lparr>Position := p3\<rparr>\<rparr>"
    unfolding s3_def by (subst Position_sub_eq [OF r2]) (simp add: r2 p3_def f_def P_def cam_def)
  have r4: "s4 = s\<lparr>g_pCamera := (g_pCamera s)\<lparr>Position := p4\<rparr>\<rparr>"
    unfolding s4_def by (subst Position_add_eq [OF r3]) (simp add: r3 p4_def f_def P_def cam_def)
  have r5: "s5 = s\<lparr>g_pCamera := (g_pCamera s)\<lparr>Position := p5\<rparr>\<rparr>"
    unfolding s5_def by (subst Position_add_eq [OF r4]) (simp add: r4 p5_def f_def P_def cam_def)
  have r6: "s6 = s\<lparr>g_pCamera := (g_pCamera s)\<lparr>Position := p6\<rparr>\<rparr>"
    unfolding s6_def by (subst Position_sub_eq [OF r5]) (simp add: r5 p6_def f_def P_def cam_def)
  show ?thesis
    unfolding unfold spec by (simp add: r6)
qed

lemma ProcessKeyboardEvents_fields:
  "m_pShaderManager (ProcessKeyboardEvents E g s) = m_pShaderManager s"
  "m_pWindow (ProcessKeyboardEvents E g s) = m_pWindow s"
  "gLastX (ProcessKeyboardEvents E g s) = gLastX s"
  "gLastY (ProcessKeyboardEvents E g s) = gLastY s"
  "gFirstMouse (ProcessKeyboardEvents E g s) = gFirstMouse s"
  "gCameraSpeedMultiplier (ProcessKeyboardEvents E g s) = gCameraSpeedMultiplier s"
  "gDeltaTime (ProcessKeyboardEvents E g s) = gDeltaTime s"
  "gLastFrame (ProcessKeyboardEvents E g s) = gLastFrame s"
  "bOrthographicProjection (ProcessKeyboardEvents E g s) = bOrthographicProjection s"
  "Mouse_Position_Callback_gCameraSpeedMultiplier (ProcessKeyboardEvents E g s) =
     Mouse_Position_Callback_gCameraSpeedMultiplier s"
  "Mouse_Scroll_Callback_gCameraSpeedMultiplier (ProcessKeyboardEvents E g s) =
     Mouse_Scroll_Callback_gCameraSpeedMultiplier s"
  "Front (g_pCamera (ProcessKeyboardEvents E g s)) = Front (g_pCamera s)"
  "Up (g_pCamera (ProcessKeyboardEvents E g s)) = Up (g_pCamera s)"
  "Zoom (g_pCamera (ProcessKeyboardEvents E g s)) = Zoom (g_pCamera s)"
  by (simp_all add: ProcessKeyboardEvents_eq)

lemma ProcessKeyboardEvents_calls:
  "calls (ProcessKeyboardEvents E g s) =
     calls s @ (if g (m_pWindow s) GLFW_KEY_ESCAPE = GLFW_PRESS
                then [glfwSetWindowShouldClose (m_pWindow s) True] else [])"
  by (simp add: ProcessKeyboardEvents_eq)

lemma ProcessKeyboardEvents_Position:
  "Position (g_pCamera (ProcessKeyboardEvents E g s)) =
     spec_position E (\<lambda>k. g (m_pWindow s) k = GLFW_PRESS) s"
  by (simp add: ProcessKeyboardEvents_eq)

lemma ProcessKeyboardEvents_mat4_sent:
  "mat4_sent name (calls (ProcessKeyboardEvents E g s)) = mat4_sent name (calls s)"
  by (simp add: ProcessKeyboardEvents_calls mat4_sent_def)

lemma ProcessKeyboardEvents_shader_keys:
  "shader_keys (calls (ProcessKeyboardEvents E g s)) = shader_keys (calls s)"
  by (simp add: ProcessKeyboardEvents_calls shader_keys_def)

lemma PrepareSceneView_eq:
  "PrepareSceneView E g t s =
     (let s1 = s\<lparr>gDeltaTime := fsub (binary32 t) (gLastFrame s), gLastFrame := binary32 t\<rparr>;
          s2 = ProcessKeyboardEvents E g s1;
          flag = (if g (m_pWindow s) GLFW_KEY_P = GLFW_PRESS then False
                  else if g (m_pWindow s) GLFW_KEY_O = GLFW_PRESS then True
                  else bOrthographicProjection s)
      in s2\<lparr>bOrthographicProjection := flag,
            calls := calls s2 @
              (if m_pShaderManager s = None then []
               else [setMat4Value ''view'' (Camera_GetViewMatrix E (g_pCamera s2)),
                     setMat4Value ''projection''
                       (if flag then glm_ortho E (- 10) 10 (- 10) 10 (binary32 (1 / 10)) 100
                        else glm_perspective E (glm_radians E (Zoom (g_pCamera s)))
                               (fdiv (of_int WINDOW_WIDTH) (of_int WINDOW_HEIGHT))
                               (binary32 (1 / 10)) 100),
                     setVec3Value ''viewPosition'' (Position (g_pCamera s2))])\<rparr>)"
proof -
  define s1 where "s1 = s\<lparr>gDeltaTime := fsub (binary32 t) (gLastFrame s), gLastFrame := binary32 t\<rparr>"
  define s2 where "s2 = ProcessKeyboardEvents E g s1"
  have w: "m_pWindow s2 = m_pWindow s" "m_pShaderManager s2 = m_pShaderManager s"
    "bOrthographicProjection s2 = bOrthographicProjection s"
    "Zoom (g_pCamera s2) = Zoom (g_pCamera s)"
    by (simp_all add: s2_def ProcessKeyboardEvents_fields s1_def)
  have "PrepareSceneView E g t s =
     (let view = Camera_GetViewMatrix E (g_pCamera s2);
          s3 = (if g (m_pWindow s2) GLFW_KEY_O = GLFW_PRESS
                then s2\<lparr>bOrthographicProjection := True\<rparr> else s2);
          s4 = (if g (m_pWindow s3) GLFW_KEY_P = GLFW_PRESS
                then s3\<lparr>bOrthographicProjection := False\<rparr> else s3);
          projection =
            (if bOrthographicProjection s4
             then glm_ortho E (- 10) 10 (- 10) 10 (binary32 (1 / 10)) 100
             else glm_perspective E (glm_radians E (Zoom (g_pCamera s4)))
                    (fdiv (of_int WINDOW_WIDTH) (of_int WINDOW_HEIGHT))
                    (binary32 (1 / 10)) 100)
      in if m_pShaderManager s4 \<noteq> None
         then s4\<lparr>calls := calls s4 @
                 [setMat4Value g_ViewName view,
                  setMat4Value g_ProjectionName projection,
                  setVec3Value ''viewPosition'' (Position (g_pCamera s4))]\<rparr>
         else s4)"
    unfolding PrepareSceneView_def s2_def s1_def by (simp add: Let_def)
  also have "\<dots> = (let flag = (if g (m_pWindow s) GLFW_KEY_P = GLFW_PRESS then False
                  else if g (m_pWindow s) GLFW_KEY_O = GLFW_PRESS then True
                  else bOrthographicProjection s)
      in s2\<lparr>bOrthographicProjection := flag,
            calls := calls s2 @
              (if m_pShaderManager s = None then []
               else [setMat4Value ''view'' (Camera_GetViewMatrix E (g_pCamera s2)),
                     setMat4Value ''projection''
                       (if flag then glm_ortho E (- 10) 10 (- 10) 10 (binary32 (1 / 10)) 100
                        else glm_perspective E (glm_radians E (Zoom (g_pCamera s)))
                               (fdiv (of_int WINDOW_WIDTH) (of_int WINDOW_HEIGHT))
                               (binary32 (1 / 10)) 100),
                     setVec3Value ''viewPosition'' (Position (g_pCamera s2))])\<rparr>)"
    by (simp add: Let_def w g_ViewName_def g_ProjectionName_def)
  finally show ?thesis
    by (simp add: Let_def s2_def s1_def)
qed

lemma PrepareSceneView_flag:
  "bOrthographicProjection (PrepareSceneView E g t s) =
     (if g (m_pWindow s) GLFW_KEY_P = GLFW_PRESS then False
      else if g (m_pWindow s) GLFW_KEY_O = GLFW_PRESS then True
      else bOrthographicProjection s)"
  by (simp add: PrepareSceneView_eq Let_def)

lemma PrepareSceneView_projection:
  assumes "m_pShaderManager s \<noteq> None"
  shows "mat4_sent ''projection'' (calls (PrepareSceneView E g t s)) =
     mat4_sent ''projection'' (calls s) @
       [if bOrthographicProjection (PrepareSceneView E g t s)
        then glm_ortho E (- 10) 10 (- 10) 10 (binary32 (1 / 10)) 100
        else glm_perspective E (glm_radians E (Zoom (g_pCamera s)))
               (fdiv (of_int WINDOW_WIDTH) (of_int WINDOW_HEIGHT))
               (binary32 (1 / 10)) 100]"
proof -
  from assms obtain p where p: "m_pShaderManager s = Some p" by auto
  show ?thesis
    unfolding PrepareSceneView_flag
    by (simp add: PrepareSceneView_eq Let_def p mat4_sent_append ProcessKeyboardEvents_mat4_sent)
       (simp add: mat4_sent_def)
qed

section \<open>The speed multipliers\<close>

lemma Mouse_Scroll_Callback_static:
  "Mouse_Scroll_Callback_gCameraSpeedMultiplier (Mouse_Scroll_Callback window xOffset yOffset s) =
     min 10 (max (binary32 (1 / 10))
       (fadd (Mouse_Scroll_Callback_gCameraSpeedMultiplier s)
          (fmul (binary32 yOffset) (binary32 (1 / 10)))))"
  by (simp add: Mouse_Scroll_Callback_def Let_def binary32_tenth min_def max_def)

text \<open>
  Claim C1. After each invocation of \<^verbatim>\<open>Mouse_Scroll_Callback\<close>, whatever events came
  before it and whatever the scroll offsets are, the speed multiplier kept by the
  callback lies in the closed interval from 0.1 to 10; the invocation adds to the
  previous value the \<^verbatim>\<open>float\<close> 0.1 times the vertical offset and then clamps the sum,
  from below at the \<^verbatim>\<open>float\<close> 0.1 and from above at 10.
\<close>

theorem Mouse_Scroll_Callback_multiplier_in_range:
  "let m = Mouse_Scroll_Callback_gCameraSpeedMultiplier (run E s evs);
       m' = Mouse_Scroll_Callback_gCameraSpeedMultiplier
              (run E s (evs @ [Scroll window xOffset yOffset]))
   in 1 / 10 \<le> m' \<and> m' \<le> 10 \<and>
      m' = min 10 (max (binary32 (1 / 10))
             (fadd m (fmul (binary32 yOffset) (binary32 (1 / 10)))))"
  unfolding Let_def run_snoc step.simps Mouse_Scroll_Callback_static
  by (simp add: binary32_tenth min_def max_def)

lemma step_gCameraSpeedMultiplier:
  "gCameraSpeedMultiplier (step E s ev) = gCameraSpeedMultiplier s"
proof (cases ev)
  case (CreateWindow windowTitle window)
  then show ?thesis by (simp add: CreateDisplayWindow_def Let_def)
next
  case (CursorPos window x y)
  then show ?thesis by (simp add: Mouse_Position_Callback_def Let_def)
next
  case (Scroll window x y)
  then show ?thesis by (simp add: Mouse_Scroll_Callback_def Let_def)
next
  case (Frame g t)
  then show ?thesis by (simp add: PrepareSceneView_eq Let_def ProcessKeyboardEvents_fields)
qed

lemma run_gCameraSpeedMultiplier:
  "gCameraSpeedMultiplier (run E s evs) = gCameraSpeedMultiplier s"
  by (induction evs rule: rev_induct) (simp_all add: run_snoc step_gCameraSpeedMultiplier, simp add: run_def)

text \<open>
  Claim C2. No operation of the module writes the namespace variable
  \<^verbatim>\<open>gCameraSpeedMultiplier\<close>, the one the keyboard poller reads: a run of window
  creations, cursor events, scroll events and frames leaves it as it was, so after the
  constructor it is 1 for ever, and the camera speed of every frame is the frame's delta
  time times 5 times 1. The mouse callbacks write their own statics instead.
\<close>

theorem gCameraSpeedMultiplier_stays_initial:
  "gCameraSpeedMultiplier (run E s evs) = gCameraSpeedMultiplier s \<and>
   gCameraSpeedMultiplier (run E (ViewManager_ctor c pShaderManager) evs) = 1 \<and>
   spec_speed (run E (ViewManager_ctor c pShaderManager) evs) =
     fmul (fmul (gDeltaTime (run E (ViewManager_ctor c pShaderManager) evs)) 5) 1"
  by (simp add: run_gCameraSpeedMultiplier spec_speed_def ViewManager_ctor_def)

section \<open>The movement of the camera\<close>

text \<open>
  Claim C3. \<^verbatim>\<open>ProcessKeyboardEvents\<close> moves the position of the camera by the
  displacement of every pressed movement key, taken in the order W, S, A, D, Q, E, each
  displacement being the camera speed (delta time times 5 times the multiplier) along the
  axis of the key. When exactly one movement key is pressed the position changes by the
  displacement of that key, and when none is pressed it does not change. The front and
  up vectors are not changed.
\<close>

theorem ProcessKeyboardEvents_moves_camera:
  "let pressed = (\<lambda>k. glfwGetKey (m_pWindow s) k = GLFW_PRESS);
       cam = g_pCamera s;
       cam' = g_pCamera (ProcessKeyboardEvents E glfwGetKey s)
   in Position cam' = spec_position E pressed s \<and>
      (\<forall>k \<in> set movement_keys.
         filter pressed movement_keys = [k] \<longrightarrow>
           Position cam' = spec_move E cam (spec_speed s) (Position cam) k) \<and>
      (filter pressed movement_keys = [] \<longrightarrow> Position cam' = Position cam) \<and>
      Front cam' = Front cam \<and> Up cam' = Up cam"
  by (simp add: Let_def ProcessKeyboardEvents_Position ProcessKeyboardEvents_fields
      spec_position_def)

theorem ProcessKeyboardEvents_moves_camera_witness:
  "filter (\<lambda>k. keys_down [GLFW_KEY_W] (Some 1) k = GLFW_PRESS) movement_keys = [GLFW_KEY_W] \<and>
   filter (\<lambda>k. keys_down [GLFW_KEY_ESCAPE] (Some 1) k = GLFW_PRESS) movement_keys = [] \<and>
   Position (g_pCamera (ProcessKeyboardEvents externals_instance (keys_down [GLFW_KEY_W])
      ((ViewManager_ctor () None)\<lparr>m_pWindow := Some 1, gDeltaTime := 1 / 2\<rparr>))) =
     vec3 0 (15 / 4) 7 \<and>
   Position (g_pCamera (ProcessKeyboardEvents externals_instance (keys_down [GLFW_KEY_ESCAPE])
      ((ViewManager_ctor () None)\<lparr>m_pWindow := Some 1, gDeltaTime := 1 / 2\<rparr>))) =
     vec3 0 5 12 \<and>
   Position (g_pCamera (ProcessKeyboardEvents externals_instance
      (keys_down [GLFW_KEY_W, GLFW_KEY_D])
      ((ViewManager_ctor () None)\<lparr>m_pWindow := Some 1, gDeltaTime := 1 / 2\<rparr>))) =
     vec3 (5 / 2) (15 / 4) 7"
proof -
  define s :: "(unit, mat4_term) ViewManager"
    where "s = (ViewManager_ctor () None)\<lparr>m_pWindow := Some 1, gDeltaTime := 1 / 2\<rparr>"
  define cam :: Camera
    where "cam = \<lparr> Position = vec3 0 5 12, Front = vec3 0 (- (1 / 2)) (- 2),
                     Up = vec3 0 1 0, Zoom = 80 \<rparr>"
  have w: "m_pWindow s = Some 1"
    by (simp add: s_def)
  have cam: "g_pCamera s = cam"
    by (simp add: s_def cam_def ViewManager_ctor_def)
  have pc: "Position cam = vec3 0 5 12"
    by (simp add: cam_def)
  have "spec_speed s = fmul (fmul (1 / 2) 5) 1"
    by (simp add: spec_speed_def s_def ViewManager_ctor_def)
  also have "\<dots> = 5 / 2"
    by (simp add: float_eval)
  finally have speed: "spec_speed s = 5 / 2" .
  have "spec_move externals_instance cam (5 / 2) (vec3 0 5 12) GLFW_KEY_W =
          vec3 (fadd 0 (fmul (5 / 2) 0)) (fadd 5 (fmul (5 / 2) (- (1 / 2))))
            (fadd 12 (fmul (5 / 2) (- 2)))"
    by (simp add: cam_def)
  also have "\<dots> = vec3 0 (15 / 4) 7"
    by (simp add: float_eval)
  finally have m1: "spec_move externals_instance cam (5 / 2) (vec3 0 5 12) GLFW_KEY_W =
      vec3 0 (15 / 4) 7" .
  have "glm_cross externals_instance (Front cam) (Up cam) = vec3 2 0 0"
    by (simp add: cam_def externals_instance_def) (simp add: float_eval)
  then have "spec_move externals_instance cam (5 / 2) (vec3 0 (15 / 4) 7) GLFW_KEY_D =
          vec3 (fadd 0 (fmul 1 (5 / 2))) (fadd (15 / 4) (fmul 0 (5 / 2))) (fadd 7 (fmul 0 (5 / 2)))"
    by (simp add: externals_instance_def)
  also have "\<dots> = vec3 (5 / 2) (15 / 4) 7"
    by (simp add: float_eval)
  finally have m2: "spec_move externals_instance cam (5 / 2) (vec3 0 (15 / 4) 7) GLFW_KEY_D =
      vec3 (5 / 2) (15 / 4) 7" .
  have f1: "filter (\<lambda>k. keys_down [GLFW_KEY_W] (m_pWindow s) k = GLFW_PRESS) movement_keys =
              [GLFW_KEY_W]"
    and f2: "filter (\<lambda>k. keys_down [GLFW_KEY_ESCAPE] (m_pWindow s) k = GLFW_PRESS) movement_keys = []"
    and f3: "filter (\<lambda>k. keys_down [GLFW_KEY_W, GLFW_KEY_D] (m_pWindow s) k = GLFW_PRESS)
               movement_keys = [GLFW_KEY_W, GLFW_KEY_D]"
    and mem: "GLFW_KEY_W \<in> set movement_keys"
    by (simp_all add: keys_down_simps movement_keys_def)
  have "Position (g_pCamera (ProcessKeyboardEvents externals_instance (keys_down [GLFW_KEY_W]) s)) =
          spec_move externals_instance (g_pCamera s) (spec_speed s) (Position (g_pCamera s)) GLFW_KEY_W"
    using ProcessKeyboardEvents_moves_camera [of "keys_down [GLFW_KEY_W]" s externals_instance, unfolded Let_def] mem f1
    by blast
  then have p1: "Position (g_pCamera (ProcessKeyboardEvents externals_instance
      (keys_down [GLFW_KEY_W]) s)) = vec3 0 (15 / 4) 7"
    by (simp only: cam speed pc m1)
  have "Position (g_pCamera (ProcessKeyboardEvents externals_instance (keys_down [GLFW_KEY_ESCAPE]) s)) =
          Position (g_pCamera s)"
    using ProcessKeyboardEvents_moves_camera [of "keys_down [GLFW_KEY_ESCAPE]" s externals_instance, unfolded Let_def] f2
    by blast
  then have p2: "Position (g_pCamera (ProcessKeyboardEvents externals_instance
      (keys_down [GLFW_KEY_ESCAPE]) s)) = vec3 0 5 12"
    by (simp only: cam pc)
  have "Position (g_pCamera (ProcessKeyboardEvents externals_instance
          (keys_down [GLFW_KEY_W, GLFW_KEY_D]) s)) =
        spec_position externals_instance
          (\<lambda>k. keys_down [GLFW_KEY_W, GLFW_KEY_D] (m_pWindow s) k = GLFW_PRESS) s"
    using ProcessKeyboardEvents_moves_camera [of "keys_down [GLFW_KEY_W, GLFW_KEY_D]" s externals_instance, unfolded Let_def]
    by blast
  also have "\<dots> = vec3 (5 / 2) (15 / 4) 7"
    unfolding spec_position_def f3 speed cam pc
    by (simp only: foldl.simps m1 m2)
  finally have p3: "Position (g_pCamera (ProcessKeyboardEvents externals_instance
      (keys_down [GLFW_KEY_W, GLFW_KEY_D]) s)) = vec3 (5 / 2) (15 / 4) 7" .
  show ?thesis
    using f1 f2 p1 p2 p3 unfolding w unfolding s_def by blast
qed

section \<open>The first cursor event\<close>

lemma Mouse_Position_Callback_first:
  assumes "gFirstMouse s"
  shows "calls (Mouse_Position_Callback E window x y s) =
           calls s @
           [ProcessMouseMovement (fmul (binary32 (dsub x (binary32 x))) (5 / 2))
              (fmul (binary32 (dsub (binary32 y) y)) (5 / 2)),
            cout_string ''Camera Speed Multiplier: '',
            cout_float (Mouse_Position_Callback_gCameraSpeedMultiplier
                          (Mouse_Position_Callback E window x y s)),
            cout_endl]"
    and "gLastX (Mouse_Position_Callback E window x y s) = binary32 x"
    and "gLastY (Mouse_Position_Callback E window x y s) = binary32 y"
    and "\<not> gFirstMouse (Mouse_Position_Callback E window x y s)"
  using assms by (simp_all add: Mouse_Position_Callback_def Let_def)

text \<open>
  What the first invocation of \<^verbatim>\<open>Mouse_Position_Callback\<close> forwards, for every cursor
  position. The last-known position is set to the incoming one converted to \<^verbatim>\<open>float\<close>,
  and the differences are then taken against the unconverted \<^verbatim>\<open>double\<close>s: the yaw offset
  is 2.5 times \<open>x - float x\<close> and the pitch offset is 2.5 times \<open>float y - y\<close>. Both are
  zero when both coordinates are values of the type \<^verbatim>\<open>float\<close>.
\<close>

lemma Mouse_Position_Callback_first_offsets:
  assumes "gFirstMouse s"
  shows "let s' = Mouse_Position_Callback E window xMousePos yMousePos s
         in forwarded (calls s') =
              forwarded (calls s) @
              [(fmul (binary32 (dsub xMousePos (binary32 xMousePos))) (5 / 2),
                fmul (binary32 (dsub (binary32 yMousePos) yMousePos)) (5 / 2))] \<and>
            (binary32 xMousePos = xMousePos \<and> binary32 yMousePos = yMousePos \<longrightarrow>
               forwarded (calls s') = forwarded (calls s) @ [(0, 0)]) \<and>
            gLastX s' = binary32 xMousePos \<and> gLastY s' = binary32 yMousePos \<and>
            \<not> gFirstMouse s'"
proof -
  have zero: "fmul (binary32 (dsub a a)) (5 / 2) = 0" for a
    by (simp add: dsub_def fmul_def binary64_zero binary32_zero)
  show ?thesis
    using Mouse_Position_Callback_first [OF assms, of E window xMousePos yMousePos]
    by (simp add: Let_def forwarded_append) (simp add: forwarded_def zero)
qed

lemma Mouse_Position_Callback_first_whole_pixels:
  "gFirstMouse (ViewManager_ctor () None :: (unit, mat4_term) ViewManager) \<and>
   binary32 400 = 400 \<and> binary32 300 = 300 \<and>
   forwarded (calls (Mouse_Position_Callback externals_instance None 400 300
                       (ViewManager_ctor () None))) = [(0, 0)]"
proof -
  have h: "gFirstMouse (ViewManager_ctor () None :: (unit, mat4_term) ViewManager)"
    by (simp add: ViewManager_ctor_def)
  have r: "binary32 400 = 400" "binary32 300 = 300"
    by (simp_all add: float_eval)
  have "forwarded (calls (Mouse_Position_Callback externals_instance None 400 300
          (ViewManager_ctor () None :: (unit, mat4_term) ViewManager))) =
        forwarded (calls (ViewManager_ctor () None :: (unit, mat4_term) ViewManager)) @ [(0, 0)]"
    using Mouse_Position_Callback_first_offsets [OF h, of externals_instance None 400 300] r
    unfolding Let_def by blast
  moreover have "forwarded (calls (ViewManager_ctor () None :: (unit, mat4_term) ViewManager)) = []"
    by (simp add: ViewManager_ctor_def forwarded_def)
  ultimately show ?thesis using h r by simp
qed

text \<open>
  Claim C4. On the first invocation of \<^verbatim>\<open>Mouse_Position_Callback\<close> the last-known
  cursor position is seeded to the incoming position before the offsets are computed, so
  that the yaw and pitch offsets forwarded to the camera are both exactly zero, for every
  initial cursor position. The code sets out to do this and misses: the seed is narrowed
  to \<^verbatim>\<open>float\<close> and then subtracted from the \<^verbatim>\<open>double\<close> it came from. The \<^verbatim>\<open>double\<close>
  \<open>512 + 2 ^ -15\<close> lies halfway between two neighbouring \<^verbatim>\<open>float\<close>s and is stored as
  512; as the first cursor position, with the vertical coordinate 300, it makes the code
  forward the yaw offset \<open>5 / 65536\<close>, which is 2.5 times \<open>2 ^ -15\<close>, where the claim asks
  for zero.
\<close>

theorem first_cursor_event_offset_not_zero:
  "gFirstMouse (ViewManager_ctor () None :: (unit, mat4_term) ViewManager) \<and>
   binary64 (512 + 1 / 32768) = 512 + 1 / 32768 \<and> binary64 300 = 300 \<and>
   forwarded (calls (Mouse_Position_Callback externals_instance None (512 + 1 / 32768) 300
                       (ViewManager_ctor () None))) = [(5 / 65536, 0)] \<and>
   forwarded (calls (Mouse_Position_Callback externals_instance None (512 + 1 / 32768) 300
                       (ViewManager_ctor () None))) \<noteq> [(0, 0)]"
proof -
  have h: "gFirstMouse (ViewManager_ctor () None :: (unit, mat4_term) ViewManager)"
    by (simp add: ViewManager_ctor_def)
  have x: "fmul (binary32 (dsub (512 + 1 / 32768) (binary32 (512 + 1 / 32768)))) (5 / 2) = 5 / 65536"
    by (simp add: float_eval)
  have y: "fmul (binary32 (dsub (binary32 300) 300)) (5 / 2) = 0"
    by (simp add: float_eval)
  have d: "binary64 (512 + 1 / 32768) = 512 + 1 / 32768" "binary64 300 = 300"
    by (simp_all add: float_eval)
  have "forwarded (calls (Mouse_Position_Callback externals_instance None (512 + 1 / 32768) 300
          (ViewManager_ctor () None :: (unit, mat4_term) ViewManager))) = [(5 / 65536, 0)]"
    unfolding Mouse_Position_Callback_first [OF h] forwarded_append x y
    by (simp add: forwarded_def ViewManager_ctor_def)
  then show ?thesis using h d by simp
qed

section \<open>The projection matrix\<close>

text \<open>
  Claim C5. \<^verbatim>\<open>PrepareSceneView\<close> chooses the projection matrix by the flag as the keys
  polled in the same frame leave it. With O pressed (and P not) the flag becomes true and
  the matrix is \<^verbatim>\<open>ortho(-10, 10, -10, 10, 0.1f, 100)\<close>; with P pressed the flag becomes
  false and the matrix is \<^verbatim>\<open>perspective(radians(Zoom), width / height, 0.1f, 100)\<close>;
  with neither pressed the stored flag is kept and selects the matrix. The matrix is the
  one set under the name "projection" when there is a shader manager.
\<close>

theorem PrepareSceneView_selects_matrix:
  "let pressed = (\<lambda>k. glfwGetKey (m_pWindow s) k = GLFW_PRESS);
       s' = PrepareSceneView E glfwGetKey glfwGetTime s;
       sent = mat4_sent ''projection'' (calls s');
       before = mat4_sent ''projection'' (calls s);
       orthographic = glm_ortho E (- 10) 10 (- 10) 10 (binary32 (1 / 10)) 100;
       perspective = glm_perspective E (glm_radians E (Zoom (g_pCamera s)))
                       (fdiv (of_int WINDOW_WIDTH) (of_int WINDOW_HEIGHT))
                       (binary32 (1 / 10)) 100
   in bOrthographicProjection s' =
        (if pressed GLFW_KEY_P then False
         else if pressed GLFW_KEY_O then True
         else bOrthographicProjection s) \<and>
      (m_pShaderManager s \<noteq> None \<longrightarrow>
         sent = before @ [if bOrthographicProjection s' then orthographic else perspective]) \<and>
      (pressed GLFW_KEY_O \<and> \<not> pressed GLFW_KEY_P \<longrightarrow>
         bOrthographicProjection s' \<and>
         (m_pShaderManager s \<noteq> None \<longrightarrow> sent = before @ [orthographic])) \<and>
      (pressed GLFW_KEY_P \<longrightarrow>
         \<not> bOrthographicProjection s' \<and>
         (m_pShaderManager s \<noteq> None \<longrightarrow> sent = before @ [perspective])) \<and>
      (\<not> pressed GLFW_KEY_O \<and> \<not> pressed GLFW_KEY_P \<longrightarrow>
         bOrthographicProjection s' = bOrthographicProjection s \<and>
         (m_pShaderManager s \<noteq> None \<longrightarrow>
            sent = before @ [if bOrthographicProjection s then orthographic else perspective]))"
  unfolding Let_def
  by (simp add: PrepareSceneView_projection PrepareSceneView_flag)

theorem PrepareSceneView_selects_matrix_witness:
  "keys_down [GLFW_KEY_O] (Some 1) GLFW_KEY_O = GLFW_PRESS \<and>
   keys_down [GLFW_KEY_O] (Some 1) GLFW_KEY_P \<noteq> GLFW_PRESS \<and>
   keys_down [GLFW_KEY_P] (Some 1) GLFW_KEY_P = GLFW_PRESS \<and>
   keys_down [] (Some 1) GLFW_KEY_O \<noteq> GLFW_PRESS \<and>
   keys_down [] (Some 1) GLFW_KEY_P \<noteq> GLFW_PRESS \<and>
   mat4_sent ''projection'' (calls (PrepareSceneView externals_instance (keys_down [GLFW_KEY_O]) 1
      ((ViewManager_ctor () (Some 7))\<lparr>m_pWindow := Some 1\<rparr>))) =
     [Ortho (- 10) 10 (- 10) 10 (binary32 (1 / 10)) 100] \<and>
   mat4_sent ''projection'' (calls (PrepareSceneView externals_instance (keys_down [GLFW_KEY_P]) 1
      ((ViewManager_ctor () (Some 7))\<lparr>m_pWindow := Some 1, bOrthographicProjection := True\<rparr>))) =
     [Perspective (radians_instance 80) (fdiv 1000 800) (binary32 (1 / 10)) 100] \<and>
   mat4_sent ''projection'' (calls (PrepareSceneView externals_instance (keys_down []) 1
      ((ViewManager_ctor () (Some 7))\<lparr>m_pWindow := Some 1, bOrthographicProjection := True\<rparr>))) =
     [Ortho (- 10) 10 (- 10) 10 (binary32 (1 / 10)) 100]"
proof -
  define s :: "(unit, mat4_term) ViewManager"
    where "s = (ViewManager_ctor () (Some 7))\<lparr>m_pWindow := Some 1\<rparr>"
  define s' :: "(unit, mat4_term) ViewManager"
    where "s' = (ViewManager_ctor () (Some 7))\<lparr>m_pWindow := Some 1, bOrthographicProjection := True\<rparr>"
  have s: "m_pWindow s = Some 1" "m_pShaderManager s \<noteq> None" "mat4_sent ''projection'' (calls s) = []"
    "Zoom (g_pCamera s) = 80"
    by (simp_all add: s_def ViewManager_ctor_def mat4_sent_def)
  have s': "m_pWindow s' = Some 1" "m_pShaderManager s' \<noteq> None" "mat4_sent ''projection'' (calls s') = []"
    "Zoom (g_pCamera s') = 80" "bOrthographicProjection s'"
    by (simp_all add: s'_def ViewManager_ctor_def mat4_sent_def)
  have k: "keys_down [GLFW_KEY_O] (Some 1) GLFW_KEY_O = GLFW_PRESS"
    "keys_down [GLFW_KEY_O] (Some 1) GLFW_KEY_P \<noteq> GLFW_PRESS"
    "keys_down [GLFW_KEY_P] (Some 1) GLFW_KEY_P = GLFW_PRESS"
    "keys_down [] (Some 1) GLFW_KEY_O \<noteq> GLFW_PRESS"
    "keys_down [] (Some 1) GLFW_KEY_P \<noteq> GLFW_PRESS"
    by (simp_all add: keys_down_def)
  have e: "glm_ortho externals_instance = Ortho" "glm_perspective externals_instance = Perspective"
    "glm_radians externals_instance = radians_instance"
    "real_of_int WINDOW_WIDTH = 1000" "real_of_int WINDOW_HEIGHT = 800"
    by (simp_all add: externals_instance_def WINDOW_WIDTH_def WINDOW_HEIGHT_def)
  have "mat4_sent ''projection'' (calls (PrepareSceneView externals_instance
          (keys_down [GLFW_KEY_O]) 1 s)) = [Ortho (- 10) 10 (- 10) 10 (binary32 (1 / 10)) 100]"
    using PrepareSceneView_selects_matrix [where glfwGetKey = "keys_down [GLFW_KEY_O]" and s = s and E = externals_instance
        and glfwGetTime = 1, unfolded Let_def s e] k s(2)
    unfolding s(3) by simp
  moreover have "mat4_sent ''projection'' (calls (PrepareSceneView externals_instance
          (keys_down [GLFW_KEY_P]) 1 s')) =
        [Perspective (radians_instance 80) (fdiv 1000 800) (binary32 (1 / 10)) 100]"
    using PrepareSceneView_selects_matrix [where glfwGetKey = "keys_down [GLFW_KEY_P]" and s = s' and E = externals_instance
        and glfwGetTime = 1, unfolded Let_def s' e] k s'(2)
    unfolding s'(3) by simp
  moreover have "mat4_sent ''projection'' (calls (PrepareSceneView externals_instance
          (keys_down []) 1 s')) = [Ortho (- 10) 10 (- 10) 10 (binary32 (1 / 10)) 100]"
    using PrepareSceneView_selects_matrix [where glfwGetKey = "keys_down []" and s = s' and E = externals_instance
        and glfwGetTime = 1, unfolded Let_def s' e] k s'(2,5)
    unfolding s'(3) by simp
  ultimately show ?thesis
    using k unfolding s_def s'_def by blast
qed

text \<open>
  Claim C6. With O and P both pressed in one frame the later poll wins: O is polled
  first, P second, the flag ends the frame false and the perspective matrix is selected.
\<close>

theorem PrepareSceneView_both_keys_pressed:
  assumes "glfwGetKey (m_pWindow s) GLFW_KEY_O = GLFW_PRESS"
    and "glfwGetKey (m_pWindow s) GLFW_KEY_P = GLFW_PRESS"
  shows "let s' = PrepareSceneView E glfwGetKey glfwGetTime s
         in \<not> bOrthographicProjection s' \<and>
            (m_pShaderManager s \<noteq> None \<longrightarrow>
               mat4_sent ''projection'' (calls s') =
                 mat4_sent ''projection'' (calls s) @
                 [glm_perspective E (glm_radians E (Zoom (g_pCamera s)))
                    (fdiv (of_int WINDOW_WIDTH) (of_int WINDOW_HEIGHT))
                    (binary32 (1 / 10)) 100])"
  unfolding Let_def using assms
  by (simp add: PrepareSceneView_projection PrepareSceneView_flag)

theorem PrepareSceneView_both_keys_pressed_witness:
  "keys_down [GLFW_KEY_O, GLFW_KEY_P] (Some 1) GLFW_KEY_O = GLFW_PRESS \<and>
   keys_down [GLFW_KEY_O, GLFW_KEY_P] (Some 1) GLFW_KEY_P = GLFW_PRESS \<and>
   \<not> bOrthographicProjection (PrepareSceneView externals_instance
        (keys_down [GLFW_KEY_O, GLFW_KEY_P]) 1
        ((ViewManager_ctor () (Some 7))\<lparr>m_pWindow := Some 1\<rparr>)) \<and>
   mat4_sent ''projection'' (calls (PrepareSceneView externals_instance
        (keys_down [GLFW_KEY_O, GLFW_KEY_P]) 1
        ((ViewManager_ctor () (Some 7))\<lparr>m_pWindow := Some 1\<rparr>))) =
     [Perspective (radians_instance 80) (fdiv 1000 800) (binary32 (1 / 10)) 100]"
proof -
  define s :: "(unit, mat4_term) ViewManager"
    where "s = (ViewManager_ctor () (Some 7))\<lparr>m_pWindow := Some 1\<rparr>"
  have s: "m_pWindow s = Some 1" "m_pShaderManager s \<noteq> None" "mat4_sent ''projection'' (calls s) = []"
    "Zoom (g_pCamera s) = 80"
    by (simp_all add: s_def ViewManager_ctor_def mat4_sent_def)
  have k: "keys_down [GLFW_KEY_O, GLFW_KEY_P] (m_pWindow s) GLFW_KEY_O = GLFW_PRESS"
    "keys_down [GLFW_KEY_O, GLFW_KEY_P] (m_pWindow s) GLFW_KEY_P = GLFW_PRESS"
    by (simp_all add: keys_down_def)
  have e: "glm_perspective externals_instance = Perspective"
    "glm_radians externals_instance = radians_instance"
    "real_of_int WINDOW_WIDTH = 1000" "real_of_int WINDOW_HEIGHT = 800"
    by (simp_all add: externals_instance_def WINDOW_WIDTH_def WINDOW_HEIGHT_def)
  show ?thesis
    using PrepareSceneView_both_keys_pressed [where glfwGetKey = "keys_down [GLFW_KEY_O, GLFW_KEY_P]" and s = s
        and E = externals_instance and glfwGetTime = 1, OF k, unfolded Let_def s e] k s(2)
    unfolding s(1,3) s_def by simp
qed

section \<open>Window creation\<close>

text \<open>
  Claim C7. When \<^verbatim>\<open>glfwCreateWindow\<close> returns null, \<^verbatim>\<open>CreateDisplayWindow\<close> writes the
  failure message, calls \<^verbatim>\<open>glfwTerminate\<close> and returns null. It makes no other call, and
  the state is unchanged apart from the record of these calls; in particular the stored
  window is unchanged.
\<close>

theorem CreateDisplayWindow_creation_fails:
  assumes "window = None"
  shows "let r = CreateDisplayWindow windowTitle window s
         in fst r = None \<and>
            calls (snd r) =
              calls s @
              [glfwCreateWindow WINDOW_WIDTH WINDOW_HEIGHT windowTitle,
               cout_string ''Failed to create GLFW window'', cout_endl, glfwTerminate] \<and>
            m_pWindow (snd r) = m_pWindow s \<and>
            snd r = s\<lparr>calls := calls (snd r)\<rparr>"
  using assms by (simp add: CreateDisplayWindow_def Let_def)

theorem CreateDisplayWindow_creation_fails_witness:
  "(None :: pointer) = None \<and>
   CreateDisplayWindow ''CS-330'' None (ViewManager_ctor () None :: (unit, mat4_term) ViewManager) =
     (None, (ViewManager_ctor () None)\<lparr>calls :=
        [glfwCreateWindow 1000 800 ''CS-330'',
         cout_string ''Failed to create GLFW window'', cout_endl, glfwTerminate]\<rparr>)"
proof -
  have h: "(None :: pointer) = None" by simp
  have c: "calls (ViewManager_ctor () None :: (unit, mat4_term) ViewManager) = []"
    by (simp add: ViewManager_ctor_def)
  note r = CreateDisplayWindow_creation_fails [OF h, where windowTitle = "''CS-330''"
      and s = "ViewManager_ctor () None :: (unit, mat4_term) ViewManager",
      unfolded Let_def c WINDOW_WIDTH_def WINDOW_HEIGHT_def append_Nil]
  from r have a: "fst (CreateDisplayWindow ''CS-330'' None
      (ViewManager_ctor () None :: (unit, mat4_term) ViewManager)) = None"
    by blast
  from r have b: "calls (snd (CreateDisplayWindow ''CS-330'' None
      (ViewManager_ctor () None :: (unit, mat4_term) ViewManager))) =
      [glfwCreateWindow 1000 800 ''CS-330'',
       cout_string ''Failed to create GLFW window'', cout_endl, glfwTerminate]"
    by blast
  from r have d: "snd (CreateDisplayWindow ''CS-330'' None
      (ViewManager_ctor () None :: (unit, mat4_term) ViewManager)) =
      (ViewManager_ctor () None)\<lparr>calls := calls (snd (CreateDisplayWindow ''CS-330'' None
        (ViewManager_ctor () None :: (unit, mat4_term) ViewManager)))\<rparr>"
    by blast
  show ?thesis
    using a d [unfolded b] by (simp add: prod_eq_iff)
qed

section \<open>Frame timing\<close>

lemma timing_fields:
  "gLastFrame (snd (CreateDisplayWindow windowTitle window s)) = gLastFrame s"
  "gDeltaTime (snd (CreateDisplayWindow windowTitle window s)) = gDeltaTime s"
  "gLastFrame (Mouse_Position_Callback E window x y s) = gLastFrame s"
  "gDeltaTime (Mouse_Position_Callback E window x y s) = gDeltaTime s"
  "gLastFrame (Mouse_Scroll_Callback window x y s) = gLastFrame s"
  "gDeltaTime (Mouse_Scroll_Callback window x y s) = gDeltaTime s"
  "gLastFrame (PrepareSceneView E g t s) = binary32 t"
  "gDeltaTime (PrepareSceneView E g t s) = fsub (binary32 t) (gLastFrame s)"
  by (simp_all add: CreateDisplayWindow_def Mouse_Position_Callback_def Mouse_Scroll_Callback_def
        PrepareSceneView_eq Let_def ProcessKeyboardEvents_fields)

lemma run_gLastFrame:
  "gLastFrame (run E (ViewManager_ctor c p) evs) = binary32 (last (0 # frame_times evs))"
proof (induction evs rule: rev_induct)
  case Nil
  show ?case by (simp add: run_def ViewManager_ctor_def binary32_zero)
next
  case (snoc ev evs)
  show ?case
    by (cases ev) (simp_all add: run_snoc timing_fields frame_times_append snoc)
qed

lemma run_gDeltaTime:
  "sorted (0 # frame_times evs) \<Longrightarrow> 0 \<le> gDeltaTime (run E (ViewManager_ctor c p) evs)"
proof (induction evs rule: rev_induct)
  case Nil
  show ?case by (simp add: run_def ViewManager_ctor_def)
next
  case (snoc ev evs)
  from snoc.prems have sorted: "sorted (0 # frame_times evs)"
    by (simp add: frame_times_append sorted_append)
  show ?case
  proof (cases ev)
    case (Frame g t)
    have "last (0 # frame_times evs) \<le> t"
      using snoc.prems Frame by (auto simp add: frame_times_append sorted_append)
    then have "binary32 (last (0 # frame_times evs)) \<le> binary32 t"
      by (rule binary32_mono)
    then have "0 \<le> fsub (binary32 t) (binary32 (last (0 # frame_times evs)))"
      unfolding fsub_def by (intro binary32_nonneg) simp
    then show ?thesis
      by (simp add: Frame run_snoc timing_fields run_gLastFrame)
  qed (use snoc.IH [OF sorted] in \<open>simp_all add: run_snoc timing_fields\<close>)
qed

text \<open>
  Claim C8. If the clock readings of the frames of a run never decrease and the first
  one is at least 0, the delta time that \<^verbatim>\<open>PrepareSceneView\<close> computes in each frame, the
  current reading minus the stored one, is not negative. Other events may come between
  the frames.
\<close>

theorem PrepareSceneView_delta_nonnegative:
  assumes "sorted (0 # frame_times (evs @ [Frame glfwGetKey glfwGetTime]))"
  shows "0 \<le> gDeltaTime (run E (ViewManager_ctor c pShaderManager)
                (evs @ [Frame glfwGetKey glfwGetTime]))"
  using assms by (rule run_gDeltaTime)

theorem PrepareSceneView_delta_nonnegative_witness:
  "sorted (0 # frame_times ([Frame (keys_down []) 1, Scroll None 0 1] @ [Frame (keys_down []) 2])) \<and>
   0 \<le> gDeltaTime (run externals_instance (ViewManager_ctor () None)
          ([Frame (keys_down []) 1, Scroll None 0 1] @ [Frame (keys_down []) 2]))"
proof -
  have h: "sorted (0 # frame_times ([Frame (keys_down []) 1, Scroll None 0 1] @ [Frame (keys_down []) 2]))"
    by simp
  show ?thesis
    using PrepareSceneView_delta_nonnegative [OF h, where E = externals_instance and c = "()" and pShaderManager = None] h
    by blast
qed

section \<open>The close request\<close>

lemma step_should_close_writes:
  "should_close_writes (calls (step E s ev)) =
     should_close_writes (calls s) @ close_request (m_pWindow s) ev"
  by (cases ev)
     (simp_all add: CreateDisplayWindow_def Mouse_Position_Callback_def Mouse_Scroll_Callback_def
        PrepareSceneView_eq Let_def ProcessKeyboardEvents_calls should_close_writes_def)

text \<open>
  Claim C9. \<^verbatim>\<open>ProcessKeyboardEvents\<close> calls \<^verbatim>\<open>glfwSetWindowShouldClose\<close> with the stored
  window and true when Escape is pressed, and records no call at all when it is not.
  No other operation writes the flag: an event adds a write only if it is a frame with
  Escape pressed.
\<close>

theorem ProcessKeyboardEvents_escape_closes:
  "let s' = ProcessKeyboardEvents E glfwGetKey s
   in (glfwGetKey (m_pWindow s) GLFW_KEY_ESCAPE = GLFW_PRESS \<longrightarrow>
         calls s' = calls s @ [glfwSetWindowShouldClose (m_pWindow s) True]) \<and>
      (glfwGetKey (m_pWindow s) GLFW_KEY_ESCAPE \<noteq> GLFW_PRESS \<longrightarrow> calls s' = calls s) \<and>
      should_close_writes (calls (step E s ev)) =
        should_close_writes (calls s) @ close_request (m_pWindow s) ev"
  by (simp add: Let_def ProcessKeyboardEvents_calls step_should_close_writes)

theorem ProcessKeyboardEvents_escape_closes_witness:
  "keys_down [GLFW_KEY_ESCAPE] (Some 1) GLFW_KEY_ESCAPE = GLFW_PRESS \<and>
   keys_down [GLFW_KEY_W] (Some 1) GLFW_KEY_ESCAPE \<noteq> GLFW_PRESS \<and>
   calls (ProcessKeyboardEvents externals_instance (keys_down [GLFW_KEY_ESCAPE])
      ((ViewManager_ctor () None)\<lparr>m_pWindow := Some 1\<rparr>)) =
     [glfwSetWindowShouldClose (Some 1) True] \<and>
   calls (ProcessKeyboardEvents externals_instance (keys_down [GLFW_KEY_W])
      ((ViewManager_ctor () None)\<lparr>m_pWindow := Some 1\<rparr>)) = []"
proof -
  define s :: "(unit, mat4_term) ViewManager"
    where "s = (ViewManager_ctor () None)\<lparr>m_pWindow := Some 1\<rparr>"
  have s: "m_pWindow s = Some 1" "calls s = []"
    by (simp_all add: s_def ViewManager_ctor_def)
  have k: "keys_down [GLFW_KEY_ESCAPE] (Some 1) GLFW_KEY_ESCAPE = GLFW_PRESS"
    "keys_down [GLFW_KEY_W] (Some 1) GLFW_KEY_ESCAPE \<noteq> GLFW_PRESS"
    by (simp_all add: keys_down_def)
  have "calls (ProcessKeyboardEvents externals_instance (keys_down [GLFW_KEY_ESCAPE]) s) =
          [glfwSetWindowShouldClose (Some 1) True]"
    using ProcessKeyboardEvents_escape_closes [where glfwGetKey = "keys_down [GLFW_KEY_ESCAPE]" and s = s
        and E = externals_instance and ev = "Scroll None 0 0", unfolded Let_def s] k
    by simp
  moreover have "calls (ProcessKeyboardEvents externals_instance (keys_down [GLFW_KEY_W]) s) = []"
    using ProcessKeyboardEvents_escape_closes [where glfwGetKey = "keys_down [GLFW_KEY_W]" and s = s
        and E = externals_instance and ev = "Scroll None 0 0", unfolded Let_def s] k
    by simp
  ultimately show ?thesis
    using k unfolding s_def by blast
qed

section \<open>The shader parameters\<close>

text \<open>
  Claim C10. With a null shader manager \<^verbatim>\<open>PrepareSceneView\<close> sets no shader parameter;
  with a shader manager it sets exactly three, under the names "view", "projection" and
  "viewPosition", in this order. In both cases it updates the timing variables and
  processes the keyboard.
\<close>

theorem PrepareSceneView_shader_guard:
  "let s1 = s\<lparr>gDeltaTime := fsub (binary32 glfwGetTime) (gLastFrame s),
              gLastFrame := binary32 glfwGetTime\<rparr>;
       s2 = ProcessKeyboardEvents E glfwGetKey s1;
       s' = PrepareSceneView E glfwGetKey glfwGetTime s
   in (m_pShaderManager s = None \<longrightarrow>
         calls s' = calls s2 \<and> shader_keys (calls s') = shader_keys (calls s)) \<and>
      (m_pShaderManager s \<noteq> None \<longrightarrow>
         calls s' =
           calls s2 @
           [setMat4Value ''view'' (Camera_GetViewMatrix E (g_pCamera s2)),
            setMat4Value ''projection''
              (if bOrthographicProjection s'
               then glm_ortho E (- 10) 10 (- 10) 10 (binary32 (1 / 10)) 100
               else glm_perspective E (glm_radians E (Zoom (g_pCamera s)))
                      (fdiv (of_int WINDOW_WIDTH) (of_int WINDOW_HEIGHT))
                      (binary32 (1 / 10)) 100),
            setVec3Value ''viewPosition'' (Position (g_pCamera s2))] \<and>
         shader_keys (calls s') =
           shader_keys (calls s) @ [''view'', ''projection'', ''viewPosition'']) \<and>
      gLastFrame s' = binary32 glfwGetTime \<and>
      gDeltaTime s' = fsub (binary32 glfwGetTime) (gLastFrame s) \<and>
      g_pCamera s' = g_pCamera s2"
  unfolding Let_def PrepareSceneView_flag
  by (simp add: PrepareSceneView_eq Let_def ProcessKeyboardEvents_fields shader_keys_append
      ProcessKeyboardEvents_shader_keys)
     (simp add: shader_keys_def)

theorem PrepareSceneView_shader_guard_witness:
  "m_pShaderManager (ViewManager_ctor () None :: (unit, mat4_term) ViewManager) = None \<and>
   m_pShaderManager (ViewManager_ctor () (Some 7) :: (unit, mat4_term) ViewManager) \<noteq> None \<and>
   shader_keys (calls (PrepareSceneView externals_instance (keys_down []) 1
      (ViewManager_ctor () None))) = [] \<and>
   gLastFrame (PrepareSceneView externals_instance (keys_down []) 1
      (ViewManager_ctor () None)) = binary32 1 \<and>
   shader_keys (calls (PrepareSceneView externals_instance (keys_down []) 1
      (ViewManager_ctor () (Some 7)))) = [''view'', ''projection'', ''viewPosition'']"
proof -
  define s0 :: "(unit, mat4_term) ViewManager" where "s0 = ViewManager_ctor () None"
  define s1 :: "(unit, mat4_term) ViewManager" where "s1 = ViewManager_ctor () (Some 7)"
  have h: "m_pShaderManager s0 = None" "m_pShaderManager s1 \<noteq> None"
    "shader_keys (calls s0) = []" "shader_keys (calls s1) = []"
    by (simp_all add: s0_def s1_def ViewManager_ctor_def shader_keys_def)
  have "shader_keys (calls (PrepareSceneView externals_instance (keys_down []) 1 s0)) = [] \<and>
        gLastFrame (PrepareSceneView externals_instance (keys_down []) 1 s0) = binary32 1"
    using PrepareSceneView_shader_guard [where s = s0 and glfwGetTime = 1 and E = externals_instance
        and glfwGetKey = "keys_down []", unfolded Let_def h(3)] h(1)
    by blast
  moreover have "shader_keys (calls (PrepareSceneView externals_instance (keys_down []) 1 s1)) =
      [''view'', ''projection'', ''viewPosition'']"
    using PrepareSceneView_shader_guard [where s = s1 and glfwGetTime = 1 and E = externals_instance
        and glfwGetKey = "keys_down []", unfolded Let_def h(4) append_Nil] h(2)
    by blast
  ultimately show ?thesis
    using h(1,2) unfolding s0_def s1_def by blast
qed

end
